theory Spec2Isabelle
  imports Main "HOL-Library.AList" "HOL-Library.Sublist"
begin

section \<open>JavaScript objects and query keys\<close>

text \<open>
  A key segment is a plain JavaScript object. Its own properties are enumerated in
  insertion order (none of the field names used here is an integer index), so the object
  is an association list. Field values are strings, except the \<open>filter\<close> payload of
  a list key, which is a \<open>Record<string, string>\<close>.
\<close>

datatype js_value = JString string | JRecord "(string \<times> string) list"

type_synonym segment = "(string \<times> js_value) list"

text \<open>
  An object literal \<^verbatim>\<open>{ ...parent, field: v }\<close> defines its properties from left to right:
  a property that is already present keeps its position and takes the new value, a new
  property is appended. \<open>AList.update\<close> is exactly that step.
\<close>

definition object_literal :: "(string \<times> 'v) list \<Rightarrow> (string \<times> 'v) list" where
  "object_literal props = foldl (\<lambda>obj (k, v). AList.update k v obj) [] props"

text \<open>
  \<^verbatim>\<open>type QueryKey = readonly [Record<string, unknown>]\<close>: a tuple of exactly one segment;
  \<open>at0\<close> is the index \<^verbatim>\<open>[0]\<close>.
\<close>

datatype query_key = Key (at0: segment)

subsection \<open>contentTypeKeys (src/queries/contentTypes/contentTypeKeys.ts)\<close>

definition contentTypeKeys_all :: query_key where
  "contentTypeKeys_all = Key (object_literal [(''type'', JString ''contentType'')])"

definition contentTypeKeys_allForEnvironment :: "string \<Rightarrow> query_key" where
  "contentTypeKeys_allForEnvironment projectId =
     Key (object_literal (at0 contentTypeKeys_all @ [(''projectId'', JString projectId)]))"

definition contentTypeKeys_detailsForEnvironment :: "string \<Rightarrow> query_key" where
  "contentTypeKeys_detailsForEnvironment projectId =
     Key (object_literal
       (at0 (contentTypeKeys_allForEnvironment projectId) @ [(''scope'', JString ''detail'')]))"

definition contentTypeKeys_listsForEnvironment :: "string \<Rightarrow> query_key" where
  "contentTypeKeys_listsForEnvironment projectId =
     Key (object_literal
       (at0 (contentTypeKeys_allForEnvironment projectId) @ [(''scope'', JString ''list'')]))"

definition contentTypeKeys_detail :: "string \<Rightarrow> string \<Rightarrow> query_key" where
  "contentTypeKeys_detail projectId detailId =
     Key (object_literal
       (at0 (contentTypeKeys_detailsForEnvironment projectId) @
        [(''detailId'', JString detailId)]))"

text \<open>The optional argument is \<open>None\<close> when omitted; \<^verbatim>\<open>filter ?? {}\<close> then gives the empty object.\<close>

definition contentTypeKeys_list :: "string \<Rightarrow> (string \<times> string) list option \<Rightarrow> query_key" where
  "contentTypeKeys_list projectId filter' =
     Key (object_literal
       (at0 (contentTypeKeys_listsForEnvironment projectId) @
        [(''filter'', JRecord (case filter' of None \<Rightarrow> [] | Some f \<Rightarrow> f))]))"

subsection \<open>languageKeys (src/queries/languages/languageKeys.ts)\<close>

definition languageKeys_all :: query_key where
  "languageKeys_all = Key (object_literal [(''type'', JString ''language'')])"

definition languageKeys_allForEnvironment :: "string \<Rightarrow> query_key" where
  "languageKeys_allForEnvironment projectId =
     Key (object_literal (at0 languageKeys_all @ [(''projectId'', JString projectId)]))"

definition languageKeys_listsForEnvironment :: "string \<Rightarrow> query_key" where
  "languageKeys_listsForEnvironment projectId =
     Key (object_literal
       (at0 (languageKeys_allForEnvironment projectId) @ [(''scope'', JString ''list'')]))"

definition languageKeys_list :: "string \<Rightarrow> query_key" where
  "languageKeys_list projectId =
     Key (object_literal (at0 (languageKeys_listsForEnvironment projectId)))"

subsection \<open>The keys the constructors produce\<close>

definition contentType_filterKeys :: "query_key set" where
  "contentType_filterKeys =
     {contentTypeKeys_all} \<union> range contentTypeKeys_allForEnvironment \<union>
     range contentTypeKeys_detailsForEnvironment \<union> range contentTypeKeys_listsForEnvironment"

definition contentType_queryKeys :: "query_key set" where
  "contentType_queryKeys =
     range (\<lambda>(p, d). contentTypeKeys_detail p d) \<union> range (\<lambda>(p, f). contentTypeKeys_list p f)"

definition language_filterKeys :: "query_key set" where
  "language_filterKeys =
     {languageKeys_all} \<union> range languageKeys_allForEnvironment \<union>
     range languageKeys_listsForEnvironment"

definition language_queryKeys :: "query_key set" where
  "language_queryKeys = range languageKeys_list"

definition contentType_keys :: "query_key set" where
  "contentType_keys = contentType_filterKeys \<union> contentType_queryKeys"

definition language_keys :: "query_key set" where
  "language_keys = language_filterKeys \<union> language_queryKeys"

section \<open>The content type model and the mock transport\<close>

text \<open>src/queries/contentTypes/contentType.model.ts\<close>

record content_type =
  id' :: string
  name :: string
  codename :: string
  lastModified :: string

record pagination_info =
  count :: nat
  nextPage :: "string option"

record content_types =
  data :: "content_type list"
  pagination :: pagination_info

text \<open>A rejected promise carries \<^verbatim>\<open>new Error(message)\<close>; a promise is \<open>Inl\<close> when rejected.\<close>

datatype js_error = Error string

definition allContentTypes :: "content_type list" where
  "allContentTypes =
     [\<lparr>id' = ''ct-001'', name = ''Article'', codename = ''article'',
        lastModified = ''2025-01-15T10:30:00Z''\<rparr>,
      \<lparr>id' = ''ct-002'', name = ''Author'', codename = ''author'',
        lastModified = ''2025-01-14T15:20:00Z''\<rparr>,
      \<lparr>id' = ''ct-003'', name = ''Product'', codename = ''product'',
        lastModified = ''2025-01-13T09:45:00Z''\<rparr>,
      \<lparr>id' = ''ct-004'', name = ''Category'', codename = ''category'',
        lastModified = ''2025-01-12T14:10:00Z''\<rparr>]"

definition mockContentTypesByCodename :: "(string \<times> content_type) list" where
  "mockContentTypesByCodename =
     object_literal
       [(''article'', \<lparr>id' = ''ct-001'', name = ''Article'', codename = ''article'',
          lastModified = ''2025-01-15T10:30:00Z''\<rparr>),
        (''author'', \<lparr>id' = ''ct-002'', name = ''Author'', codename = ''author'',
          lastModified = ''2025-01-14T15:20:00Z''\<rparr>),
        (''product'', \<lparr>id' = ''ct-003'', name = ''Product'', codename = ''product'',
          lastModified = ''2025-01-13T09:45:00Z''\<rparr>)]"

text \<open>
  \<^verbatim>\<open>obj[key]\<close> on an object literal: an own property if there is one, else the property
  of that name inherited from \<open>Object.prototype\<close>, else \<open>undefined\<close> (\<open>None\<close>). The
  names are those \<open>Object.prototype\<close> has in ECMAScript, Annex B included. Every
  inherited member is a function or an object, hence truthy.
\<close>

definition object_prototype_properties :: "string list" where
  "object_prototype_properties =
     [''constructor'', ''hasOwnProperty'', ''isPrototypeOf'', ''propertyIsEnumerable'',
      ''toLocaleString'', ''toString'', ''valueOf'', ''__proto__'', ''__defineGetter__'',
      ''__defineSetter__'', ''__lookupGetter__'', ''__lookupSetter__'']"

datatype 'v property_read = OwnProperty 'v | InheritedProperty string

definition get_property :: "(string \<times> 'v) list \<Rightarrow> string \<Rightarrow> 'v property_read option" where
  "get_property obj k =
     (case map_of obj k of
        Some v \<Rightarrow> Some (OwnProperty v)
      | None \<Rightarrow>
          if k \<in> set object_prototype_properties then Some (InheritedProperty k) else None)"

text \<open>
  \<^verbatim>\<open>String.prototype.toLowerCase\<close> on the ASCII letters (the mock's names are ASCII), and
  \<^verbatim>\<open>String.prototype.includes\<close>.
\<close>

definition toLowerCase :: "string \<Rightarrow> string" where
  "toLowerCase s =
     map (\<lambda>c. case map_of (zip ''ABCDEFGHIJKLMNOPQRSTUVWXYZ'' ''abcdefghijklmnopqrstuvwxyz'') c of
                 Some l \<Rightarrow> l | None \<Rightarrow> c) s"

definition includes_str :: "string \<Rightarrow> string \<Rightarrow> bool" where
  "includes_str s search = sublist search s"

text \<open>
  src/queries/contentTypes/contentType.service.mock.ts. \<^verbatim>\<open>console.log\<close> is left out.
  \<^verbatim>\<open>filter?.name\<close> is \<open>undefined\<close> for an omitted filter and for a filter without a
  \<open>name\<close>; the empty string is falsy as well.
\<close>

definition mock_fetchContentTypes ::
  "string \<Rightarrow> (string \<times> string) list option \<Rightarrow> js_error + content_types" where
  "mock_fetchContentTypes projectId filter' =
     (let filteredTypes =
        (case filter' of
           None \<Rightarrow> allContentTypes
         | Some f \<Rightarrow>
             (case map_of f ''name'' of
                None \<Rightarrow> allContentTypes
              | Some n \<Rightarrow>
                  if n = [] then allContentTypes
                  else filter (\<lambda>ct. includes_str (toLowerCase (name ct)) (toLowerCase n))
                         allContentTypes))
      in Inr \<lparr>data = filteredTypes,
              pagination = \<lparr>count = length filteredTypes, nextPage = None\<rparr>\<rparr>)"

text \<open>
  The promise resolves with whatever the property read returned, unless that is falsy:
  an own record, or a member inherited from \<open>Object.prototype\<close>.
\<close>

definition mock_fetchContentType ::
  "string \<Rightarrow> string \<Rightarrow> js_error + content_type property_read" where
  "mock_fetchContentType projectId contentTypeId =
     (case get_property mockContentTypesByCodename contentTypeId of
        None \<Rightarrow>
          Inl (Error (''Content type with ID '' @ [CHR 0x27] @ contentTypeId @ [CHR 0x27] @
                      '' not found''))
      | Some contentType \<Rightarrow> Inr contentType)"

text \<open>
  \<^verbatim>\<open>new Date().toISOString()\<close> reads the clock; the reading is the argument \<open>now\<close>.
\<close>

definition mock_updateContentType :: "string \<Rightarrow> content_type \<Rightarrow> js_error + content_type" where
  "mock_updateContentType now contentType = Inr (contentType\<lparr>lastModified := now\<rparr>)"

section \<open>The cache store behind the typed query client\<close>

text \<open>
  src/queries/typedQueryClient.type.ts only re-types the query client of the
  \<^verbatim>\<open>@tanstack/react-query\<close> package, and useQueryClient.ts is a cast: the store itself is
  not among the sources. The definitions of this section are therefore written from the
  specification (sections 3, 4.1, 4.3 and 4.6).
\<close>

text \<open>
  The cache models registered for the query keys (\<open>QueryKeyNameToCacheModel\<close> of both
  entities): a content type for \<open>detail\<close>, a page of content types for the content type
  \<open>list\<close>, an array of languages for the language \<open>list\<close>.
\<close>

record language =
  language_id :: string
  language_name :: string
  language_codename :: string

datatype cache_model =
  ContentTypeModel content_type
| ContentTypesModel content_types
| LanguagesModel "language list"

text \<open>
  Modelled from the spec: the containment relation of the key algebra, which the query
  library computes. "Every field present in F appears with equal value in Q."
\<close>

definition matches :: "query_key \<Rightarrow> query_key \<Rightarrow> bool" where
  "matches F Q = list_all (\<lambda>(k, v). map_of (at0 Q) k = Some v) (at0 F)"

text \<open>
  Modelled from the spec: the cache entry of the query library,
  \<open>{key, state, value?, error?, lastUpdated, stale}\<close>. The key is the entry's key in the
  store.
\<close>

datatype entry_state = StateIdle | StateLoading | StateSuccess | StateError

record entry =
  state :: entry_state
  value' :: "cache_model option"
  error' :: "js_error option"
  lastUpdated :: nat
  stale :: bool

text \<open>
  Modelled from the spec: the cache store of the query library, a key-to-entry map under
  structural key equality. It is an association list because \<open>readMany\<close> returns the
  entries in order.
\<close>

type_synonym cache_store = "(query_key \<times> entry) list"

text \<open>Modelled from the spec: \<open>read\<close> of the cache store. "No side effect."\<close>

definition read_entry :: "query_key \<Rightarrow> cache_store \<Rightarrow> entry option" where
  "read_entry key store = map_of store key"

text \<open>
  Modelled from the spec: \<open>write\<close> of the cache store. "Creates the entry if absent,
  replaces value, sets state = success, bumps lastUpdated, clears stale. If updater returns
  no value, the store leaves any existing value untouched." \<open>now\<close> is the clock.
\<close>

definition write_entry ::
  "nat \<Rightarrow> query_key \<Rightarrow> (cache_model option \<Rightarrow> cache_model option) \<Rightarrow> cache_store \<Rightarrow> cache_store"
  where
  "write_entry now key updater store =
     (case updater (case read_entry key store of None \<Rightarrow> None | Some e \<Rightarrow> value' e) of
        None \<Rightarrow> store
      | Some v \<Rightarrow>
          AList.update key
            (case read_entry key store of
               None \<Rightarrow>
                 \<lparr>state = StateSuccess, value' = Some v, error' = None, lastUpdated = now,
                  stale = False\<rparr>
             | Some e \<Rightarrow>
                 e\<lparr>value' := Some v, state := StateSuccess, lastUpdated := now,
                   stale := False\<rparr>)
            store)"

text \<open>
  Modelled from the spec: \<open>invalidate\<close> of the cache store. "For every entry whose key is
  matched by filterKey, set stale = true. Does not remove the value."
\<close>

definition invalidate :: "query_key \<Rightarrow> cache_store \<Rightarrow> cache_store" where
  "invalidate filterKey store =
     map (\<lambda>(k, e). if matches filterKey k then (k, e\<lparr>stale := True\<rparr>) else (k, e)) store"

text \<open>
  Modelled from the spec: the methods of the typed cache facade that the sources call on
  the query client. \<open>getQueryData\<close> returns the entry's value or \<open>undefined\<close>;
  \<open>setQueryData\<close> returns the value it was given by the updater, with the new store;
  \<open>invalidateQueries\<close> takes \<^verbatim>\<open>{ queryKey }\<close>.
\<close>

definition getQueryData :: "query_key \<Rightarrow> cache_store \<Rightarrow> cache_model option" where
  "getQueryData queryKey store =
     (case read_entry queryKey store of None \<Rightarrow> None | Some e \<Rightarrow> value' e)"

definition setQueryData ::
  "nat \<Rightarrow> query_key \<Rightarrow> (cache_model option \<Rightarrow> cache_model option) \<Rightarrow> cache_store \<Rightarrow>
   cache_model option \<times> cache_store" where
  "setQueryData now queryKey updater store =
     (updater (getQueryData queryKey store), write_entry now queryKey updater store)"

definition invalidateQueries :: "query_key \<Rightarrow> cache_store \<Rightarrow> cache_store" where
  "invalidateQueries queryKey store = invalidate queryKey store"

section \<open>The update mutation (src/queries/contentTypes/updateContentType.ts)\<close>

record variables =
  projectId :: string
  contentType :: content_type

text \<open>\<open>mutationFn\<close>: the commit against the origin; \<open>now_iso\<close> is the clock reading.\<close>

definition updateContentType_mutationFn :: "string \<Rightarrow> variables \<Rightarrow> js_error + content_type" where
  "updateContentType_mutationFn now_iso vars = mock_updateContentType now_iso (contentType vars)"

text \<open>
  \<open>onSuccess\<close>: called with the committed record. \<open>context.client\<close> is the store, passed
  in and returned; the updater is \<^verbatim>\<open>() => data\<close>; the result of \<open>setQueryData\<close> is dropped.
\<close>

definition updateContentType_onSuccess ::
  "nat \<Rightarrow> content_type \<Rightarrow> variables \<Rightarrow> cache_store \<Rightarrow> cache_store" where
  "updateContentType_onSuccess now committed vars queryClient =
     (let (_, queryClient1) =
        setQueryData now (contentTypeKeys_detail (projectId vars) (id' committed))
          (\<lambda>_. Some (ContentTypeModel committed)) queryClient
      in invalidateQueries (contentTypeKeys_listsForEnvironment (projectId vars)) queryClient1)"

section \<open>Declaration order of key fields\<close>

text \<open>
  The fields in the order in which the extension chains of both entities introduce them,
  and the listing of a field map in that order.
\<close>

definition declaration_order :: "string list" where
  "declaration_order = [''type'', ''projectId'', ''scope'', ''detailId'', ''filter'']"

definition in_declaration_order :: "(string \<rightharpoonup> js_value) \<Rightarrow> segment" where
  "in_declaration_order m = List.map_filter (\<lambda>f. map_option (Pair f) (m f)) declaration_order"

section \<open>A concrete scenario\<close>

text \<open>
  The cache of the demo application for project \<open>project-001\<close>: the detail of the
  article under its id, the unfiltered content type list, the detail of the author, and
  the language list; and the update the application sends for the article.
\<close>

definition demo_update :: content_type where
  "demo_update = \<lparr>id' = ''ct-001'', name = ''Article (Updated)'', codename = ''article'',
                  lastModified = ''2025-01-15T10:30:00Z''\<rparr>"

definition demo_entry :: "cache_model \<Rightarrow> entry" where
  "demo_entry v = \<lparr>state = StateSuccess, value' = Some v, error' = None, lastUpdated = 1,
                   stale = False\<rparr>"

definition demo_store :: cache_store where
  "demo_store =
     [(contentTypeKeys_detail ''project-001'' ''ct-001'', demo_entry (ContentTypeModel (allContentTypes ! 0))),
      (contentTypeKeys_list ''project-001'' None,
         demo_entry (ContentTypesModel \<lparr>data = allContentTypes,
            pagination = \<lparr>count = 4, nextPage = None\<rparr>\<rparr>)),
      (contentTypeKeys_detail ''project-001'' ''ct-002'', demo_entry (ContentTypeModel (allContentTypes ! 1))),
      (languageKeys_list ''project-001'',
         demo_entry (LanguagesModel [\<lparr>language_id = ''lang-001'',
            language_name = ''English (United States)'', language_codename = ''en-us''\<rparr>]))]"

section \<open>Shapes of the keys\<close>

lemmas key_defs =
  contentTypeKeys_all_def contentTypeKeys_allForEnvironment_def
  contentTypeKeys_detailsForEnvironment_def contentTypeKeys_listsForEnvironment_def
  contentTypeKeys_detail_def contentTypeKeys_list_def
  languageKeys_all_def languageKeys_allForEnvironment_def
  languageKeys_listsForEnvironment_def languageKeys_list_def object_literal_def

lemma at0_contentTypeKeys_all:
  "at0 contentTypeKeys_all = [(''type'', JString ''contentType'')]"
  by (simp add: key_defs)

lemma at0_contentTypeKeys_allForEnvironment:
  "at0 (contentTypeKeys_allForEnvironment p) =
     [(''type'', JString ''contentType''), (''projectId'', JString p)]"
  by (simp add: key_defs)

lemma at0_contentTypeKeys_detailsForEnvironment:
  "at0 (contentTypeKeys_detailsForEnvironment p) =
     [(''type'', JString ''contentType''), (''projectId'', JString p),
      (''scope'', JString ''detail'')]"
  by (simp add: key_defs)

lemma at0_contentTypeKeys_listsForEnvironment:
  "at0 (contentTypeKeys_listsForEnvironment p) =
     [(''type'', JString ''contentType''), (''projectId'', JString p),
      (''scope'', JString ''list'')]"
  by (simp add: key_defs)

lemma at0_contentTypeKeys_detail:
  "at0 (contentTypeKeys_detail p d) =
     [(''type'', JString ''contentType''), (''projectId'', JString p),
      (''scope'', JString ''detail''), (''detailId'', JString d)]"
  by (simp add: key_defs)

lemma at0_contentTypeKeys_list:
  "at0 (contentTypeKeys_list p f) =
     [(''type'', JString ''contentType''), (''projectId'', JString p),
      (''scope'', JString ''list''),
      (''filter'', JRecord (case f of None \<Rightarrow> [] | Some r \<Rightarrow> r))]"
  by (simp add: key_defs)

lemma at0_languageKeys_all:
  "at0 languageKeys_all = [(''type'', JString ''language'')]"
  by (simp add: key_defs)

lemma at0_languageKeys_allForEnvironment:
  "at0 (languageKeys_allForEnvironment p) =
     [(''type'', JString ''language''), (''projectId'', JString p)]"
  by (simp add: key_defs)

lemma at0_languageKeys_listsForEnvironment:
  "at0 (languageKeys_listsForEnvironment p) =
     [(''type'', JString ''language''), (''projectId'', JString p),
      (''scope'', JString ''list'')]"
  by (simp add: key_defs)

lemma at0_languageKeys_list:
  "at0 (languageKeys_list p) =
     [(''type'', JString ''language''), (''projectId'', JString p),
      (''scope'', JString ''list'')]"
  by (simp add: key_defs)

lemmas at0_keys =
  at0_contentTypeKeys_all at0_contentTypeKeys_allForEnvironment
  at0_contentTypeKeys_detailsForEnvironment at0_contentTypeKeys_listsForEnvironment
  at0_contentTypeKeys_detail at0_contentTypeKeys_list
  at0_languageKeys_all at0_languageKeys_allForEnvironment
  at0_languageKeys_listsForEnvironment at0_languageKeys_list

lemmas key_sets =
  contentType_keys_def language_keys_def contentType_filterKeys_def contentType_queryKeys_def
  language_filterKeys_def language_queryKeys_def

lemma registered_key_canonical:
  assumes "K \<in> contentType_keys \<union> language_keys"
  shows "at0 K = in_declaration_order (map_of (at0 K))"
  using assms
  by (auto simp: key_sets at0_keys in_declaration_order_def declaration_order_def)

lemma registered_key_distinct:
  assumes "K \<in> contentType_keys \<union> language_keys"
  shows "distinct (map fst (at0 K))"
  using assms by (auto simp: key_sets at0_keys)

lemma same_fields_same_key:
  assumes "K1 \<in> contentType_keys \<union> language_keys" "K2 \<in> contentType_keys \<union> language_keys"
    and "set (at0 K1) = set (at0 K2)"
  shows "K1 = K2"
proof -
  have "map_of (at0 K1) = map_of (at0 K2)"
    using assms registered_key_distinct map_of_inject_set by blast
  then have "at0 K1 = at0 K2"
    using registered_key_canonical[OF assms(1)] registered_key_canonical[OF assms(2)] by simp
  then show ?thesis by (simp add: query_key.expand)
qed

subsection \<open>The cache store\<close>

lemma read_entry_write_entry_same:
  "read_entry K (write_entry t K (\<lambda>_. Some v) s) =
     Some (case read_entry K s of
             None \<Rightarrow> \<lparr>state = StateSuccess, value' = Some v, error' = None, lastUpdated = t,
                      stale = False\<rparr>
           | Some e \<Rightarrow> e\<lparr>value' := Some v, state := StateSuccess, lastUpdated := t,
                        stale := False\<rparr>)"
  by (simp add: read_entry_def write_entry_def update_conv')

lemma read_entry_write_entry_other:
  "K' \<noteq> K \<Longrightarrow> read_entry K' (write_entry t K u s) = read_entry K' s"
  by (simp add: read_entry_def write_entry_def update_conv' split: option.splits)

lemma read_entry_invalidate:
  "read_entry K (invalidate F s) =
     (if matches F K then map_option (\<lambda>e. e\<lparr>stale := True\<rparr>) (read_entry K s)
      else read_entry K s)"
  by (induction s) (auto simp: read_entry_def invalidate_def)

subsection \<open>Containment on the produced keys\<close>

lemma containment_filter_query:
  assumes "F \<in> contentType_filterKeys \<union> language_filterKeys"
      and "Q \<in> contentType_queryKeys \<union> language_queryKeys"
  shows "matches F Q \<longleftrightarrow> prefix (at0 F) (at0 Q)"
  using assms
  by (auto simp: key_sets at0_keys matches_def)

lemma cross_entity_no_match:
  "F \<in> contentType_keys \<Longrightarrow> Q \<in> language_keys \<Longrightarrow> \<not> matches F Q"
  "F \<in> language_keys \<Longrightarrow> Q \<in> contentType_keys \<Longrightarrow> \<not> matches F Q"
  by (auto simp: key_sets at0_keys matches_def)

lemma contentTypeKeys_detail_inject:
  "contentTypeKeys_detail p d = contentTypeKeys_detail p' d' \<longleftrightarrow> p = p' \<and> d = d'"
proof
  assume "contentTypeKeys_detail p d = contentTypeKeys_detail p' d'"
  then have "at0 (contentTypeKeys_detail p d) = at0 (contentTypeKeys_detail p' d')"
    by simp
  then show "p = p' \<and> d = d'"
    by (simp add: at0_keys)
qed simp

lemma detail_neq_list: "contentTypeKeys_list p f \<noteq> contentTypeKeys_detail p' d"
proof
  assume "contentTypeKeys_list p f = contentTypeKeys_detail p' d"
  then have "at0 (contentTypeKeys_list p f) = at0 (contentTypeKeys_detail p' d)"
    by simp
  then show False
    by (simp add: at0_keys)
qed

lemma language_key_neq_detail:
  assumes "K \<in> language_keys"
  shows "K \<noteq> contentTypeKeys_detail p d"
proof
  assume "K = contentTypeKeys_detail p d"
  then have "at0 K = at0 (contentTypeKeys_detail p d)"
    by simp
  with assms show False
    by (auto simp: key_sets at0_keys)
qed

lemma lists_matches_list: "matches (contentTypeKeys_listsForEnvironment p) (contentTypeKeys_list p f)"
  by (simp add: matches_def at0_keys)

lemma lists_not_matches_detail:
  "\<not> matches (contentTypeKeys_listsForEnvironment p) (contentTypeKeys_detail p' d)"
  by (simp add: matches_def at0_keys)

subsection \<open>The update mutation\<close>

lemma onSuccess_unfold:
  "updateContentType_onSuccess t c v s =
     invalidate (contentTypeKeys_listsForEnvironment (projectId v))
       (write_entry t (contentTypeKeys_detail (projectId v) (id' c))
          (\<lambda>_. Some (ContentTypeModel c)) s)"
  by (simp add: updateContentType_onSuccess_def setQueryData_def invalidateQueries_def)

text \<open>
  Claim C1. After the commit of a content type with id \<open>ct-001\<close> and name
  \<open>Article (Updated)\<close> has succeeded, \<open>onSuccess\<close> is the invalidation of the
  lists-for-environment filter key applied to the store in which the committed record has
  been written under the detail key of \<open>(p, ct-001)\<close>: that detail key reads the
  committed record after the write and at the end; every cached content type list of
  project \<open>p\<close> is the entry it was with \<open>stale\<close> set; every other detail entry and
  every language entry reads as before.
\<close>

theorem detail_update_propagation:
  assumes "id' C = ''ct-001''" and "name C = ''Article (Updated)''"
  shows "\<exists>committed.
           updateContentType_mutationFn now_iso \<lparr>projectId = p, contentType = C\<rparr> = Inr committed \<and>
           id' committed = ''ct-001'' \<and> name committed = ''Article (Updated)'' \<and>
           updateContentType_onSuccess t committed \<lparr>projectId = p, contentType = C\<rparr> s =
             invalidateQueries (contentTypeKeys_listsForEnvironment p)
               (snd (setQueryData t (contentTypeKeys_detail p ''ct-001'')
                       (\<lambda>_. Some (ContentTypeModel committed)) s)) \<and>
           getQueryData (contentTypeKeys_detail p ''ct-001'')
             (snd (setQueryData t (contentTypeKeys_detail p ''ct-001'')
                     (\<lambda>_. Some (ContentTypeModel committed)) s)) =
             Some (ContentTypeModel committed) \<and>
           getQueryData (contentTypeKeys_detail p ''ct-001'')
             (updateContentType_onSuccess t committed \<lparr>projectId = p, contentType = C\<rparr> s) =
             Some (ContentTypeModel committed) \<and>
           (\<forall>f e. read_entry (contentTypeKeys_list p f) s = Some e \<longrightarrow>
              read_entry (contentTypeKeys_list p f)
                (updateContentType_onSuccess t committed \<lparr>projectId = p, contentType = C\<rparr> s) =
              Some (e\<lparr>stale := True\<rparr>)) \<and>
           (\<forall>p' d. (p', d) \<noteq> (p, ''ct-001'') \<longrightarrow>
              read_entry (contentTypeKeys_detail p' d)
                (updateContentType_onSuccess t committed \<lparr>projectId = p, contentType = C\<rparr> s) =
              read_entry (contentTypeKeys_detail p' d) s) \<and>
           (\<forall>K \<in> language_keys.
              read_entry K
                (updateContentType_onSuccess t committed \<lparr>projectId = p, contentType = C\<rparr> s) =
              read_entry K s)"
proof -
  let ?v = "\<lparr>projectId = p, contentType = C\<rparr>"
  let ?c = "C\<lparr>lastModified := now_iso\<rparr>"
  let ?D = "contentTypeKeys_detail p ''ct-001''"
  let ?F = "contentTypeKeys_listsForEnvironment p"
  let ?s1 = "write_entry t ?D (\<lambda>_. Some (ContentTypeModel ?c)) s"
  let ?s2 = "updateContentType_onSuccess t ?c ?v s"
  have commit: "updateContentType_mutationFn now_iso ?v = Inr ?c"
    by (simp add: updateContentType_mutationFn_def mock_updateContentType_def)
  have ident: "id' ?c = ''ct-001''" "name ?c = ''Article (Updated)''"
    using assms by simp_all
  have s2: "?s2 = invalidate ?F ?s1"
    using assms by (simp add: onSuccess_unfold)
  have order: "?s2 = invalidateQueries ?F (snd (setQueryData t ?D (\<lambda>_. Some (ContentTypeModel ?c)) s))"
    by (simp add: s2 invalidateQueries_def setQueryData_def)
  have first: "getQueryData ?D (snd (setQueryData t ?D (\<lambda>_. Some (ContentTypeModel ?c)) s)) =
                 Some (ContentTypeModel ?c)"
    by (simp add: getQueryData_def setQueryData_def read_entry_write_entry_same
        split: option.splits)
  have final: "getQueryData ?D ?s2 = Some (ContentTypeModel ?c)"
    by (simp add: s2 getQueryData_def read_entry_invalidate lists_not_matches_detail
        read_entry_write_entry_same split: option.splits)
  have lists: "\<forall>f e. read_entry (contentTypeKeys_list p f) s = Some e \<longrightarrow>
                 read_entry (contentTypeKeys_list p f) ?s2 = Some (e\<lparr>stale := True\<rparr>)"
    by (simp add: s2 read_entry_invalidate lists_matches_list read_entry_write_entry_other
        detail_neq_list)
  have details: "\<forall>p' d. (p', d) \<noteq> (p, ''ct-001'') \<longrightarrow>
                   read_entry (contentTypeKeys_detail p' d) ?s2 =
                   read_entry (contentTypeKeys_detail p' d) s"
    by (simp add: s2 read_entry_invalidate lists_not_matches_detail
        read_entry_write_entry_other contentTypeKeys_detail_inject)
  have languages: "\<forall>K \<in> language_keys. read_entry K ?s2 = read_entry K s"
  proof
    fix K assume K: "K \<in> language_keys"
    have "?F \<in> contentType_keys"
      by (simp add: key_sets)
    then have "\<not> matches ?F K"
      using K cross_entity_no_match(1) by blast
    then show "read_entry K ?s2 = read_entry K s"
      using K by (simp add: s2 read_entry_invalidate read_entry_write_entry_other
          language_key_neq_detail)
  qed
  show ?thesis
    using commit ident order first final lists details languages by blast
qed

lemma demo_store_reads:
  "read_entry (contentTypeKeys_list ''project-001'' None) demo_store =
     Some (demo_entry (ContentTypesModel \<lparr>data = allContentTypes,
            pagination = \<lparr>count = 4, nextPage = None\<rparr>\<rparr>))"
  "read_entry (contentTypeKeys_detail ''project-001'' ''ct-002'') demo_store =
     Some (demo_entry (ContentTypeModel (allContentTypes ! 1)))"
  "read_entry (languageKeys_list ''project-001'') demo_store =
     Some (demo_entry (LanguagesModel [\<lparr>language_id = ''lang-001'',
            language_name = ''English (United States)'', language_codename = ''en-us''\<rparr>]))"
  by (simp_all add: read_entry_def demo_store_def key_defs)

text \<open>The scenario above, as an instance of the theorem of claim C1.\<close>

theorem detail_update_propagation_witness:
  "id' demo_update = ''ct-001'' \<and> name demo_update = ''Article (Updated)'' \<and>
   getQueryData (contentTypeKeys_detail ''project-001'' ''ct-001'')
     (updateContentType_onSuccess 2 (demo_update\<lparr>lastModified := ''2026-01-01T00:00:00.000Z''\<rparr>)
        \<lparr>projectId = ''project-001'', contentType = demo_update\<rparr> demo_store) =
     Some (ContentTypeModel (demo_update\<lparr>lastModified := ''2026-01-01T00:00:00.000Z''\<rparr>)) \<and>
   map_option stale
     (read_entry (contentTypeKeys_list ''project-001'' None)
        (updateContentType_onSuccess 2 (demo_update\<lparr>lastModified := ''2026-01-01T00:00:00.000Z''\<rparr>)
           \<lparr>projectId = ''project-001'', contentType = demo_update\<rparr> demo_store)) = Some True \<and>
   read_entry (contentTypeKeys_detail ''project-001'' ''ct-002'')
     (updateContentType_onSuccess 2 (demo_update\<lparr>lastModified := ''2026-01-01T00:00:00.000Z''\<rparr>)
        \<lparr>projectId = ''project-001'', contentType = demo_update\<rparr> demo_store) =
     Some (demo_entry (ContentTypeModel (allContentTypes ! 1))) \<and>
   read_entry (languageKeys_list ''project-001'')
     (updateContentType_onSuccess 2 (demo_update\<lparr>lastModified := ''2026-01-01T00:00:00.000Z''\<rparr>)
        \<lparr>projectId = ''project-001'', contentType = demo_update\<rparr> demo_store) =
     read_entry (languageKeys_list ''project-001'') demo_store"
proof -
  let ?v = "\<lparr>projectId = ''project-001'', contentType = demo_update\<rparr>"
  have h1: "id' demo_update = ''ct-001''" by (simp add: demo_update_def)
  have h2: "name demo_update = ''Article (Updated)''" by (simp add: demo_update_def)
  have lang: "languageKeys_list ''project-001'' \<in> language_keys"
    by (simp add: key_sets)
  from detail_update_propagation [OF h1 h2, of "''2026-01-01T00:00:00.000Z''" "''project-001''" 2 demo_store]
  obtain c where
    commit: "updateContentType_mutationFn ''2026-01-01T00:00:00.000Z'' ?v = Inr c" and
    final: "getQueryData (contentTypeKeys_detail ''project-001'' ''ct-001'')
              (updateContentType_onSuccess 2 c ?v demo_store) = Some (ContentTypeModel c)" and
    lists: "\<forall>f e. read_entry (contentTypeKeys_list ''project-001'' f) demo_store = Some e \<longrightarrow>
              read_entry (contentTypeKeys_list ''project-001'' f)
                (updateContentType_onSuccess 2 c ?v demo_store) = Some (e\<lparr>stale := True\<rparr>)" and
    details: "\<forall>p' d. (p', d) \<noteq> (''project-001'', ''ct-001'') \<longrightarrow>
              read_entry (contentTypeKeys_detail p' d) (updateContentType_onSuccess 2 c ?v demo_store) =
              read_entry (contentTypeKeys_detail p' d) demo_store" and
    languages: "\<forall>K \<in> language_keys.
              read_entry K (updateContentType_onSuccess 2 c ?v demo_store) = read_entry K demo_store"
    by blast
  have c: "c = demo_update\<lparr>lastModified := ''2026-01-01T00:00:00.000Z''\<rparr>"
    using commit by (simp add: updateContentType_mutationFn_def mock_updateContentType_def)
  have "map_option stale (read_entry (contentTypeKeys_list ''project-001'' None)
          (updateContentType_onSuccess 2 c ?v demo_store)) = Some True"
    using lists demo_store_reads(1) by simp
  moreover have "read_entry (contentTypeKeys_detail ''project-001'' ''ct-002'')
          (updateContentType_onSuccess 2 c ?v demo_store) =
        Some (demo_entry (ContentTypeModel (allContentTypes ! 1)))"
    using details demo_store_reads(2) by simp
  moreover have "read_entry (languageKeys_list ''project-001'')
          (updateContentType_onSuccess 2 c ?v demo_store) =
        read_entry (languageKeys_list ''project-001'') demo_store"
    using languages lang by blast
  ultimately show ?thesis
    using h1 h2 final unfolding c by blast
qed

text \<open>
  Claim C2. For every filter key and every query key the constructors produce, the filter
  key matches the query key exactly when its field sequence is a prefix of the query
  key's: its fields appear there with equal values, in the same order. The \<open>all\<close> key
  of an entity matches every query key of that entity.
\<close>

theorem containment_law:
  "(\<forall>F \<in> contentType_filterKeys \<union> language_filterKeys.
      \<forall>Q \<in> contentType_queryKeys \<union> language_queryKeys.
        matches F Q \<longleftrightarrow> prefix (at0 F) (at0 Q)) \<and>
   (\<forall>Q \<in> contentType_queryKeys. matches contentTypeKeys_all Q) \<and>
   (\<forall>Q \<in> language_queryKeys. matches languageKeys_all Q)"
proof -
  have "\<forall>Q \<in> contentType_queryKeys. matches contentTypeKeys_all Q"
    by (auto simp: key_sets at0_keys matches_def)
  moreover have "\<forall>Q \<in> language_queryKeys. matches languageKeys_all Q"
    by (auto simp: key_sets at0_keys matches_def)
  ultimately show ?thesis
    using containment_filter_query by blast
qed

text \<open>An instance of the theorem of claim C2.\<close>

theorem containment_law_witness:
  "contentTypeKeys_allForEnvironment ''project-001'' \<in> contentType_filterKeys \<union> language_filterKeys \<and>
   contentTypeKeys_detail ''project-001'' ''article'' \<in> contentType_queryKeys \<union> language_queryKeys \<and>
   (matches (contentTypeKeys_allForEnvironment ''project-001'')
      (contentTypeKeys_detail ''project-001'' ''article'') \<longleftrightarrow>
    prefix (at0 (contentTypeKeys_allForEnvironment ''project-001''))
      (at0 (contentTypeKeys_detail ''project-001'' ''article''))) \<and>
   matches (contentTypeKeys_allForEnvironment ''project-001'')
      (contentTypeKeys_detail ''project-001'' ''article'') \<and>
   matches contentTypeKeys_all (contentTypeKeys_detail ''project-001'' ''article'')"
proof -
  have F: "contentTypeKeys_allForEnvironment ''project-001'' \<in>
             contentType_filterKeys \<union> language_filterKeys"
    by (simp add: key_sets)
  have Q': "contentTypeKeys_detail ''project-001'' ''article'' \<in> contentType_queryKeys"
    by (auto simp: key_sets)
  then have Q: "contentTypeKeys_detail ''project-001'' ''article'' \<in>
             contentType_queryKeys \<union> language_queryKeys"
    by simp
  have pre: "prefix (at0 (contentTypeKeys_allForEnvironment ''project-001''))
      (at0 (contentTypeKeys_detail ''project-001'' ''article''))"
    by (simp add: at0_keys)
  show ?thesis
    using containment_law F Q Q' pre by blast
qed

text \<open>
  Claim C7. Every key lists its fields in declaration order: \<open>type\<close>, then
  \<open>projectId\<close>, then \<open>scope\<close>, then \<open>detailId\<close> or \<open>filter\<close>. A produced key is
  the listing of its own field map in declaration order, so two produced keys with the
  same set of fields are equal. (The constructors are functions of their arguments alone:
  equal arguments give equal keys.)
\<close>

theorem key_construction_order_stable:
  "map fst (at0 contentTypeKeys_all) = [''type''] \<and>
   map fst (at0 (contentTypeKeys_allForEnvironment p)) = [''type'', ''projectId''] \<and>
   map fst (at0 (contentTypeKeys_detailsForEnvironment p)) = [''type'', ''projectId'', ''scope''] \<and>
   map fst (at0 (contentTypeKeys_listsForEnvironment p)) = [''type'', ''projectId'', ''scope''] \<and>
   map fst (at0 (contentTypeKeys_detail p d)) = [''type'', ''projectId'', ''scope'', ''detailId''] \<and>
   map fst (at0 (contentTypeKeys_list p f)) = [''type'', ''projectId'', ''scope'', ''filter''] \<and>
   map fst (at0 languageKeys_all) = [''type''] \<and>
   map fst (at0 (languageKeys_allForEnvironment p)) = [''type'', ''projectId''] \<and>
   map fst (at0 (languageKeys_listsForEnvironment p)) = [''type'', ''projectId'', ''scope''] \<and>
   map fst (at0 (languageKeys_list p)) = [''type'', ''projectId'', ''scope''] \<and>
   (\<forall>K \<in> contentType_keys \<union> language_keys. at0 K = in_declaration_order (map_of (at0 K))) \<and>
   (\<forall>K1 \<in> contentType_keys \<union> language_keys. \<forall>K2 \<in> contentType_keys \<union> language_keys.
      set (at0 K1) = set (at0 K2) \<longrightarrow> K1 = K2)"
proof -
  have names:
    "map fst (at0 contentTypeKeys_all) = [''type'']"
    "map fst (at0 (contentTypeKeys_allForEnvironment p)) = [''type'', ''projectId'']"
    "map fst (at0 (contentTypeKeys_detailsForEnvironment p)) = [''type'', ''projectId'', ''scope'']"
    "map fst (at0 (contentTypeKeys_listsForEnvironment p)) = [''type'', ''projectId'', ''scope'']"
    "map fst (at0 (contentTypeKeys_detail p d)) = [''type'', ''projectId'', ''scope'', ''detailId'']"
    "map fst (at0 (contentTypeKeys_list p f)) = [''type'', ''projectId'', ''scope'', ''filter'']"
    "map fst (at0 languageKeys_all) = [''type'']"
    "map fst (at0 (languageKeys_allForEnvironment p)) = [''type'', ''projectId'']"
    "map fst (at0 (languageKeys_listsForEnvironment p)) = [''type'', ''projectId'', ''scope'']"
    "map fst (at0 (languageKeys_list p)) = [''type'', ''projectId'', ''scope'']"
    by (simp_all add: at0_keys)
  have canonical:
    "\<forall>K \<in> contentType_keys \<union> language_keys. at0 K = in_declaration_order (map_of (at0 K))"
    using registered_key_canonical by blast
  have equal:
    "\<forall>K1 \<in> contentType_keys \<union> language_keys. \<forall>K2 \<in> contentType_keys \<union> language_keys.
       set (at0 K1) = set (at0 K2) \<longrightarrow> K1 = K2"
    using same_fields_same_key by blast
  show ?thesis
    using names canonical equal by blast
qed

text \<open>
  An instance of the theorem of claim C7: the list key built with the filter omitted and
  the one built with the empty filter.
\<close>

theorem key_construction_order_stable_witness:
  "contentTypeKeys_list ''project-001'' None \<in> contentType_keys \<union> language_keys \<and>
   contentTypeKeys_list ''project-001'' (Some []) \<in> contentType_keys \<union> language_keys \<and>
   set (at0 (contentTypeKeys_list ''project-001'' None)) =
     set (at0 (contentTypeKeys_list ''project-001'' (Some []))) \<and>
   contentTypeKeys_list ''project-001'' None = contentTypeKeys_list ''project-001'' (Some []) \<and>
   at0 (contentTypeKeys_list ''project-001'' None) =
     in_declaration_order (map_of (at0 (contentTypeKeys_list ''project-001'' None)))"
proof -
  have m: "contentTypeKeys_list ''project-001'' None \<in> contentType_keys \<union> language_keys"
          "contentTypeKeys_list ''project-001'' (Some []) \<in> contentType_keys \<union> language_keys"
    by (auto simp: key_sets)
  have s: "set (at0 (contentTypeKeys_list ''project-001'' None)) =
     set (at0 (contentTypeKeys_list ''project-001'' (Some [])))"
    by (simp add: at0_keys)
  show ?thesis
    using key_construction_order_stable [of "''project-001''" "''article''" None] m s by blast
qed

text \<open>
  Claim C4 as stated fails for the language entity: its \<open>list\<close> query key is a copy of
  the \<open>listsForEnvironment\<close> filter key and adds no field.
\<close>

theorem language_list_key_adds_no_field:
  "languageKeys_list ''project-001'' = languageKeys_listsForEnvironment ''project-001'' \<and>
   \<not> strict_prefix (at0 (languageKeys_listsForEnvironment ''project-001''))
       (at0 (languageKeys_list ''project-001''))"
  by (simp add: query_key.expand at0_keys)

text \<open>
  Claim C4, amended. The content type \<open>detail\<close> key is its \<open>detailsForEnvironment\<close>
  filter key followed by \<open>detailId\<close>, and the content type \<open>list\<close> key is its
  \<open>listsForEnvironment\<close> filter key followed by \<open>filter\<close>: both are strict
  extensions. The language \<open>list\<close> key is equal to its \<open>listsForEnvironment\<close> filter
  key.
\<close>

theorem query_keys_extend_filter_keys:
  "at0 (contentTypeKeys_detail p d) =
     at0 (contentTypeKeys_detailsForEnvironment p) @ [(''detailId'', JString d)] \<and>
   strict_prefix (at0 (contentTypeKeys_detailsForEnvironment p)) (at0 (contentTypeKeys_detail p d)) \<and>
   at0 (contentTypeKeys_list p f) =
     at0 (contentTypeKeys_listsForEnvironment p) @
     [(''filter'', JRecord (case f of None \<Rightarrow> [] | Some r \<Rightarrow> r))] \<and>
   strict_prefix (at0 (contentTypeKeys_listsForEnvironment p)) (at0 (contentTypeKeys_list p f)) \<and>
   languageKeys_list p = languageKeys_listsForEnvironment p"
  by (simp add: query_key.expand at0_keys)

text \<open>
  Claim C9. The commit resolves, for every input, to the input record with only
  \<open>lastModified\<close> replaced by the clock reading: \<open>id\<close>, \<open>name\<close> and \<open>codename\<close>
  are the caller's.
\<close>

theorem updateContentType_frame:
  "\<exists>r. mock_updateContentType now C = Inr r \<and>
        id' r = id' C \<and> name r = name C \<and> codename r = codename C \<and>
        lastModified r = now \<and> r = C\<lparr>lastModified := now\<rparr>"
  by (simp add: mock_updateContentType_def)

subsection \<open>The detail fetch of the mock\<close>

lemma mockContentTypesByCodename_alist:
  "map fst mockContentTypesByCodename = [''article'', ''author'', ''product'']"
  by (simp add: mockContentTypesByCodename_def object_literal_def)

text \<open>
  Claim C8. The detail fetch does not reject for every id outside the three codenames:
  for \<open>constructor\<close> the property read yields the member inherited from
  \<open>Object.prototype\<close>, which is truthy, and the promise resolves with it.
\<close>

theorem fetchContentType_resolves_inherited_member:
  "mock_fetchContentType ''project-001'' ''constructor'' = Inr (InheritedProperty ''constructor'') \<and>
   ''constructor'' \<notin> set (map codename allContentTypes)"
  by (simp add: mock_fetchContentType_def get_property_def mockContentTypesByCodename_def
      object_literal_def object_prototype_properties_def allContentTypes_def)

text \<open>
  The fetch rejects exactly for the ids that are neither a codename of the table nor a
  property name of \<open>Object.prototype\<close>. The category is listed and its detail is
  rejected.
\<close>

lemma fetchContentType_rejects_iff:
  "(\<exists>e. mock_fetchContentType p i = Inl e) \<longleftrightarrow>
     i \<notin> {''article'', ''author'', ''product''} \<and> i \<notin> set object_prototype_properties"
  by (auto simp: mock_fetchContentType_def get_property_def mockContentTypesByCodename_def
      object_literal_def split: option.splits if_splits)

lemma category_listed_but_not_fetchable:
  "\<exists>page. mock_fetchContentTypes p None = Inr page \<and>
          \<lparr>id' = ''ct-004'', name = ''Category'', codename = ''category'',
           lastModified = ''2025-01-12T14:10:00Z''\<rparr> \<in> set (data page)"
  "\<exists>e. mock_fetchContentType p ''category'' = Inl e"
  by (simp_all add: mock_fetchContentTypes_def allContentTypes_def mock_fetchContentType_def
      get_property_def mockContentTypesByCodename_def object_literal_def
      object_prototype_properties_def)

lemma fetchContentTypes_name_filter:
  "mock_fetchContentTypes p (Some [(''name'', ''ART'')]) =
     Inr \<lparr>data = [allContentTypes ! 0], pagination = \<lparr>count = 1, nextPage = None\<rparr>\<rparr>"
  by (simp add: mock_fetchContentTypes_def allContentTypes_def toLowerCase_def includes_str_def
      sublist_code)

text \<open>
  Claim C10. Every content type key starts with the field \<open>type = contentType\<close> and
  every language key with \<open>type = language\<close>; no filter key of one entity matches a
  query key of the other; invalidating a filter key of one entity leaves every entry
  under a key of the other entity as it was.
\<close>

theorem cross_entity_disjoint:
  "(\<forall>K \<in> contentType_keys. \<exists>rest. at0 K = (''type'', JString ''contentType'') # rest) \<and>
   (\<forall>K \<in> language_keys. \<exists>rest. at0 K = (''type'', JString ''language'') # rest) \<and>
   (\<forall>F \<in> contentType_filterKeys. \<forall>Q \<in> language_queryKeys. \<not> matches F Q) \<and>
   (\<forall>F \<in> language_filterKeys. \<forall>Q \<in> contentType_queryKeys. \<not> matches F Q) \<and>
   (\<forall>F \<in> contentType_filterKeys. \<forall>K \<in> language_keys. \<forall>s.
      read_entry K (invalidate F s) = read_entry K s) \<and>
   (\<forall>F \<in> language_filterKeys. \<forall>K \<in> contentType_keys. \<forall>s.
      read_entry K (invalidate F s) = read_entry K s)"
proof -
  have ct: "\<forall>K \<in> contentType_keys. \<exists>rest. at0 K = (''type'', JString ''contentType'') # rest"
    by (auto simp: key_sets at0_keys)
  have lang: "\<forall>K \<in> language_keys. \<exists>rest. at0 K = (''type'', JString ''language'') # rest"
    by (auto simp: key_sets at0_keys)
  have sub: "contentType_filterKeys \<subseteq> contentType_keys" "contentType_queryKeys \<subseteq> contentType_keys"
    "language_filterKeys \<subseteq> language_keys" "language_queryKeys \<subseteq> language_keys"
    by (auto simp: contentType_keys_def language_keys_def)
  have no1: "\<forall>F \<in> contentType_filterKeys. \<forall>Q \<in> language_keys. \<not> matches F Q"
    using cross_entity_no_match(1) sub by blast
  have no2: "\<forall>F \<in> language_filterKeys. \<forall>Q \<in> contentType_keys. \<not> matches F Q"
    using cross_entity_no_match(2) sub by blast
  have inv1: "\<forall>F \<in> contentType_filterKeys. \<forall>K \<in> language_keys. \<forall>s.
      read_entry K (invalidate F s) = read_entry K s"
    using no1 by (simp add: read_entry_invalidate)
  have inv2: "\<forall>F \<in> language_filterKeys. \<forall>K \<in> contentType_keys. \<forall>s.
      read_entry K (invalidate F s) = read_entry K s"
    using no2 by (simp add: read_entry_invalidate)
  show ?thesis
    using ct lang no1 no2 inv1 inv2 sub by blast
qed

text \<open>
  An instance of the theorem of claim C10 in the scenario: invalidating the content type
  \<open>all\<close> key leaves the language list fresh and marks a content type detail stale.
\<close>

theorem cross_entity_disjoint_witness:
  "contentTypeKeys_all \<in> contentType_filterKeys \<and>
   languageKeys_list ''project-001'' \<in> language_queryKeys \<and>
   \<not> matches contentTypeKeys_all (languageKeys_list ''project-001'') \<and>
   read_entry (languageKeys_list ''project-001'') (invalidate contentTypeKeys_all demo_store) =
     read_entry (languageKeys_list ''project-001'') demo_store \<and>
   map_option stale (read_entry (languageKeys_list ''project-001'')
     (invalidate contentTypeKeys_all demo_store)) = Some False \<and>
   map_option stale (read_entry (contentTypeKeys_detail ''project-001'' ''ct-002'')
     (invalidate contentTypeKeys_all demo_store)) = Some True"
proof -
  have F: "contentTypeKeys_all \<in> contentType_filterKeys"
    by (simp add: key_sets)
  have Q: "languageKeys_list ''project-001'' \<in> language_queryKeys"
    by (simp add: key_sets)
  then have K: "languageKeys_list ''project-001'' \<in> language_keys"
    by (simp add: language_keys_def)
  have nm: "\<not> matches contentTypeKeys_all (languageKeys_list ''project-001'')"
    using cross_entity_disjoint F Q by blast
  have same: "read_entry (languageKeys_list ''project-001'') (invalidate contentTypeKeys_all demo_store) =
     read_entry (languageKeys_list ''project-001'') demo_store"
    using cross_entity_disjoint F K by blast
  have fresh: "map_option stale (read_entry (languageKeys_list ''project-001'')
     (invalidate contentTypeKeys_all demo_store)) = Some False"
    by (simp add: same demo_store_reads demo_entry_def)
  have st: "map_option stale (read_entry (contentTypeKeys_detail ''project-001'' ''ct-002'')
     (invalidate contentTypeKeys_all demo_store)) = Some True"
    by (simp add: read_entry_invalidate demo_store_reads matches_def at0_keys)
  show ?thesis
    using F Q nm same fresh st by blast
qed

end
